theory Spec2Isabelle
  imports Complex_Main "HOL-Library.Multiset"
begin

section \<open>The profile object and the derived metrics\<close>

text \<open>
  The development follows \<^verbatim>\<open>src/arivaigosint.py\<close>, the asynchronous version of the
  analyser; \<^verbatim>\<open>src/a.py\<close> is its older synchronous version, and the places where the
  two differ are recorded where they matter.

  Counts (followers, followees, posts) are natural numbers. Python's true division
  \<^verbatim>\<open>/\<close> yields a float; the model computes with exact rationals instead of IEEE
  doubles. Strings are lists of characters read as code points.
\<close>

record profile =
  username :: string
  userid :: nat
  full_name :: string
  biography :: string
  followers :: nat
  followees :: nat
  mediacount :: nat
  is_private :: bool
  is_verified :: bool
  is_business_account :: bool
  business_category_name :: "string option"
  external_url :: "string option"
  profile_pic_url :: string

text \<open>Python truthiness of a string and of an optional string.\<close>

definition truthy_str :: "string \<Rightarrow> bool" where
  "truthy_str s = (s \<noteq> [])"

definition truthy_opt :: "string option \<Rightarrow> bool" where
  "truthy_opt x = (case x of None \<Rightarrow> False | Some s \<Rightarrow> truthy_str s)"

record metrics =
  engagement_potential :: rat
  influence_score :: rat
  authenticity_score :: rat
  activity_pattern :: string
  profile_completion :: rat

definition metrics_init :: metrics where
  "metrics_init = \<lparr> engagement_potential = 0, influence_score = 0,
     authenticity_score = 0, activity_pattern = ''unknown'', profile_completion = 0 \<rparr>"

definition auth_score :: "profile \<Rightarrow> rat" where
  "auth_score p =
     50 + (if is_verified p then 20 else 0)
        + (if truthy_str (biography p) \<and> length (biography p) > 20 then 10 else 0)
        + (if truthy_opt (external_url p) then 10 else 0)
        + (if followers p > 1000 then 10 else 0)"

definition completion :: "profile \<Rightarrow> rat" where
  "completion p =
     (if truthy_str (full_name p) then 25 else 0)
   + (if truthy_str (biography p) then 25 else 0)
   + (if truthy_str (profile_pic_url p) then 25 else 0)
   + (if mediacount p > 0 then 25 else 0)"

text \<open>
  \<^verbatim>\<open>_calculate_advanced_metrics\<close>: everything is computed under the guard
  \<^verbatim>\<open>if profile.followers > 0\<close>; otherwise the initial dictionary is returned.
  The \<^verbatim>\<open>try\<close> around the body never fires on a well-typed profile, since both
  divisions are guarded.
\<close>

definition calculate_advanced_metrics :: "profile \<Rightarrow> metrics" where
  "calculate_advanced_metrics p =
     (if followers p > 0 then
        metrics_init
          \<lparr> engagement_potential :=
              min 100 (of_nat (mediacount p) / of_nat (followers p) * 1000),
            influence_score :=
              (if followees p > 0
               then min 100 (of_nat (followers p) / of_nat (followees p) * 10)
               else 100),
            authenticity_score := min 100 (auth_score p),
            profile_completion := completion p \<rparr>
      else metrics_init)"

section \<open>Regular expressions of the security analysis\<close>

text \<open>
  \<^verbatim>\<open>re.search\<close> is a library function. The two patterns of the source are
  transcribed as regular expressions over character classes and matched with
  derivatives; \<^verbatim>\<open>\b\<close> is checked at both ends of a candidate match. A class is a list
  of inclusive character ranges. Word characters are the ASCII ones
  (\<^verbatim>\<open>[A-Za-z0-9_]\<close>).
\<close>

datatype rx = Zero | Eps | Cls "(char \<times> char) list" | Alt rx rx | Seq rx rx | Star rx

definition in_cls :: "(char \<times> char) list \<Rightarrow> char \<Rightarrow> bool" where
  "in_cls rs c =
     list_ex (\<lambda>(lo, hi). (of_char lo :: nat) \<le> of_char c \<and> (of_char c :: nat) \<le> of_char hi) rs"

fun nullable :: "rx \<Rightarrow> bool" where
  "nullable Zero = False"
| "nullable Eps = True"
| "nullable (Cls rs) = False"
| "nullable (Alt r s) = (nullable r \<or> nullable s)"
| "nullable (Seq r s) = (nullable r \<and> nullable s)"
| "nullable (Star r) = True"

definition alt :: "rx \<Rightarrow> rx \<Rightarrow> rx" where
  "alt r s = (if r = Zero then s else if s = Zero then r else Alt r s)"

definition seq :: "rx \<Rightarrow> rx \<Rightarrow> rx" where
  "seq r s = (if r = Zero \<or> s = Zero then Zero else if r = Eps then s else Seq r s)"

fun deriv :: "char \<Rightarrow> rx \<Rightarrow> rx" where
  "deriv c Zero = Zero"
| "deriv c Eps = Zero"
| "deriv c (Cls rs) = (if in_cls rs c then Eps else Zero)"
| "deriv c (Alt r s) = alt (deriv c r) (deriv c s)"
| "deriv c (Seq r s) =
     (if nullable r then alt (seq (deriv c r) s) (deriv c s) else seq (deriv c r) s)"
| "deriv c (Star r) = seq (deriv c r) (Star r)"

text \<open>The quantifiers \<^verbatim>\<open>?\<close>, \<^verbatim>\<open>+\<close>, \<^verbatim>\<open>{n}\<close>, \<^verbatim>\<open>{n,}\<close> and \<^verbatim>\<open>{n,m}\<close>.\<close>

definition opt :: "rx \<Rightarrow> rx" where
  "opt r = Alt Eps r"

definition plus :: "rx \<Rightarrow> rx" where
  "plus r = Seq r (Star r)"

primrec rep :: "nat \<Rightarrow> rx \<Rightarrow> rx" where
  "rep 0 r = Eps"
| "rep (Suc n) r = Seq r (rep n r)"

definition at_least :: "nat \<Rightarrow> rx \<Rightarrow> rx" where
  "at_least n r = Seq (rep n r) (Star r)"

definition between :: "nat \<Rightarrow> nat \<Rightarrow> rx \<Rightarrow> rx" where
  "between n m r = Seq (rep n r) (rep (m - n) (opt r))"

definition is_word :: "char \<Rightarrow> bool" where
  "is_word c = in_cls [(CHR ''A'', CHR ''Z''), (CHR ''a'', CHR ''z''),
                       (CHR ''0'', CHR ''9''), (CHR ''_'', CHR ''_'')] c"

definition word_opt :: "char option \<Rightarrow> bool" where
  "word_opt x = (case x of None \<Rightarrow> False | Some c \<Rightarrow> is_word c)"

definition boundary :: "char option \<Rightarrow> string \<Rightarrow> bool" where
  "boundary prev s = (word_opt prev \<noteq> word_opt (case s of [] \<Rightarrow> None | c # _ \<Rightarrow> Some c))"

text \<open>
  \<open>match_from b r prev s\<close>: some prefix of \<open>s\<close> matches \<open>r\<close>, and, when \<open>b\<close> holds, the
  prefix ends at a word boundary. \<open>prev\<close> is the character before \<open>s\<close>.
\<close>

fun match_from :: "bool \<Rightarrow> rx \<Rightarrow> char option \<Rightarrow> string \<Rightarrow> bool" where
  "match_from b r prev [] = (nullable r \<and> (b \<longrightarrow> boundary prev []))"
| "match_from b r prev (c # cs) =
     (if r = Zero then False
      else (nullable r \<and> (b \<longrightarrow> boundary prev (c # cs)))
           \<or> match_from b (deriv c r) (Some c) cs)"

text \<open>\<open>re_search b r prev s\<close>: a match starts at some position of \<open>s\<close>.\<close>

fun re_search :: "bool \<Rightarrow> rx \<Rightarrow> char option \<Rightarrow> string \<Rightarrow> bool" where
  "re_search b r prev [] = ((b \<longrightarrow> boundary prev []) \<and> match_from b r prev [])"
| "re_search b r prev (c # cs) =
     (((b \<longrightarrow> boundary prev (c # cs)) \<and> match_from b r prev (c # cs))
      \<or> re_search b r (Some c) cs)"

text \<open>\<^verbatim>\<open>\b[A-Za-z0-9._%+-]+@[A-Za-z0-9.-]+\.[A-Z|a-z]{2,}\b\<close>\<close>

definition email_rx :: rx where
  "email_rx =
     Seq (plus (Cls [(CHR ''A'', CHR ''Z''), (CHR ''a'', CHR ''z''), (CHR ''0'', CHR ''9''),
                     (CHR ''.'', CHR ''.''), (CHR ''_'', CHR ''_''), (CHR ''%'', CHR ''%''),
                     (CHR ''+'', CHR ''+''), (CHR ''-'', CHR ''-'')]))
    (Seq (Cls [(CHR ''@'', CHR ''@'')])
    (Seq (plus (Cls [(CHR ''A'', CHR ''Z''), (CHR ''a'', CHR ''z''), (CHR ''0'', CHR ''9''),
                     (CHR ''.'', CHR ''.''), (CHR ''-'', CHR ''-'')]))
    (Seq (Cls [(CHR ''.'', CHR ''.'')])
         (at_least 2 (Cls [(CHR ''A'', CHR ''Z''), (CHR ''|'', CHR ''|''),
                           (CHR ''a'', CHR ''z'')])))))"

text \<open>\<^verbatim>\<open>[\+]?[1-9]?[0-9]{7,14}\<close>\<close>

definition phone_rx :: rx where
  "phone_rx =
     Seq (opt (Cls [(CHR ''+'', CHR ''+'')]))
    (Seq (opt (Cls [(CHR ''1'', CHR ''9'')]))
         (between 7 14 (Cls [(CHR ''0'', CHR ''9'')])))"

definition search_email :: "string \<Rightarrow> bool" where
  "search_email s = re_search True email_rx None s"

definition search_phone :: "string \<Rightarrow> bool" where
  "search_phone s = re_search False phone_rx None s"

section \<open>Security analysis\<close>

text \<open>
  \<^verbatim>\<open>profile_data["basic_info"]\<close> as \<^verbatim>\<open>_analyze_target_profile\<close> builds it: every
  key is present, and an empty or missing string has become \<^verbatim>\<open>"N/A"\<close>.
\<close>

record basic_info =
  bi_username :: string
  bi_user_id :: nat
  bi_full_name :: string
  bi_biography :: string
  bi_followers :: nat
  bi_followees :: nat
  bi_posts_count :: nat
  bi_is_private :: bool
  bi_is_verified :: bool
  bi_is_business_account :: bool
  bi_business_category :: string
  bi_external_url :: string
  bi_profile_pic_url :: string

definition or_na :: "string \<Rightarrow> string" where
  "or_na s = (if truthy_str s then s else ''N/A'')"

definition or_na_opt :: "string option \<Rightarrow> string" where
  "or_na_opt x = (case x of None \<Rightarrow> ''N/A'' | Some s \<Rightarrow> or_na s)"

definition basic_info_of :: "profile \<Rightarrow> basic_info" where
  "basic_info_of p =
     \<lparr> bi_username = username p, bi_user_id = userid p,
       bi_full_name = or_na (full_name p), bi_biography = or_na (biography p),
       bi_followers = followers p, bi_followees = followees p,
       bi_posts_count = mediacount p, bi_is_private = is_private p,
       bi_is_verified = is_verified p, bi_is_business_account = is_business_account p,
       bi_business_category = or_na_opt (business_category_name p),
       bi_external_url = or_na_opt (external_url p),
       bi_profile_pic_url = or_na (profile_pic_url p) \<rparr>"

text \<open>
  The exposure risks and the recommendations are Turkish sentences in the source;
  they are named here by constructors, in the order of the source.
\<close>

datatype exposure_risk =
  PublicProfile | ExternalLinkPresent | DetailedBiography | EmailExposed | PhoneExposed

datatype recommendation = MakePrivate | RemovePersonalData | EnableTwoFactor

record security =
  privacy_score :: int
  exposure_risks :: "exposure_risk list"
  recommendations :: "recommendation list"
  threat_indicators :: "string list"

text \<open>
  The running value of \<^verbatim>\<open>privacy_score\<close> before the final \<^verbatim>\<open>max(0, ...)\<close>, the
  list of risks and the returned dictionary. The first two arguments are the outcomes
  of the two \<^verbatim>\<open>re.search\<close> calls on the biography: whether the e-mail pattern and
  whether the phone pattern was found.
\<close>

definition raw_privacy_score_with :: "bool \<Rightarrow> bool \<Rightarrow> basic_info \<Rightarrow> int" where
  "raw_privacy_score_with email_found phone_found b =
     100 - (if \<not> bi_is_private b then 30 else 0)
         - (if bi_external_url b \<noteq> ''N/A'' then 10 else 0)
         - (if truthy_str (bi_biography b) \<and> length (bi_biography b) > 100 then 5 else 0)
         - (if email_found then 20 else 0)
         - (if phone_found then 25 else 0)"

definition risks_with :: "bool \<Rightarrow> bool \<Rightarrow> basic_info \<Rightarrow> exposure_risk list" where
  "risks_with email_found phone_found b =
     (if \<not> bi_is_private b then [PublicProfile] else [])
   @ (if bi_external_url b \<noteq> ''N/A'' then [ExternalLinkPresent] else [])
   @ (if truthy_str (bi_biography b) \<and> length (bi_biography b) > 100
      then [DetailedBiography] else [])
   @ (if email_found then [EmailExposed] else [])
   @ (if phone_found then [PhoneExposed] else [])"

definition security_analysis_with :: "bool \<Rightarrow> bool \<Rightarrow> basic_info \<Rightarrow> security" where
  "security_analysis_with email_found phone_found b =
     (let score = max 0 (raw_privacy_score_with email_found phone_found b) in
      \<lparr> privacy_score = score,
        exposure_risks = risks_with email_found phone_found b,
        recommendations =
          (if score < 50 then [MakePrivate, RemovePersonalData, EnableTwoFactor] else []),
        threat_indicators = [] \<rparr>)"

text \<open>
  \<^verbatim>\<open>_security_analysis\<close> with the two searches run by the matcher above. The matcher
  agrees with Python's on ASCII text; next to a non-ASCII letter Python's \<^verbatim>\<open>\b\<close> uses
  the Unicode word characters, which the matcher does not know.
\<close>

definition raw_privacy_score :: "basic_info \<Rightarrow> int" where
  "raw_privacy_score b =
     raw_privacy_score_with (search_email (bi_biography b)) (search_phone (bi_biography b)) b"

definition security_analysis :: "basic_info \<Rightarrow> security" where
  "security_analysis b =
     security_analysis_with (search_email (bi_biography b)) (search_phone (bi_biography b)) b"

section \<open>Suspicious patterns\<close>

text \<open>
  The labels are Turkish sentences in the source (high followers with low content,
  abnormal follower/following ratio, excessive following, low profile completion);
  the marker is the string \<^verbatim>\<open>"no_suspicious_patterns"\<close>.
\<close>

datatype suspicious_label =
  HighFollowersLowContent | AbnormalRatio | ExcessiveFollowing | LowCompletion
  | NoSuspiciousPatterns

definition ratio_of :: "profile \<Rightarrow> rat" where
  "ratio_of p = of_nat (followers p) / of_nat (followees p)"

text \<open>The list \<^verbatim>\<open>suspicious\<close> as the rules have filled it, before the final \<^verbatim>\<open>or\<close>.\<close>

definition fired_labels :: "profile \<Rightarrow> suspicious_label list" where
  "fired_labels p =
     (if followers p > 10000 \<and> mediacount p < 10 then [HighFollowersLowContent] else [])
   @ (if followees p > 0
      then (if ratio_of p > 100 then [AbnormalRatio]
            else if ratio_of p < 1 / 10 then [ExcessiveFollowing] else [])
      else [])
   @ (if profile_completion (calculate_advanced_metrics p) < 50 then [LowCompletion] else [])"

text \<open>
  \<^verbatim>\<open>_detect_suspicious_patterns(followers, followees, profile)\<close>; the two sampled
  lists are not read.
\<close>

definition detect_suspicious_patterns ::
  "string list \<Rightarrow> string list \<Rightarrow> profile \<Rightarrow> suspicious_label list" where
  "detect_suspicious_patterns fs fes p =
     (if fired_labels p = [] then [NoSuspiciousPatterns] else fired_labels p)"

text \<open>
  The same function in \<^verbatim>\<open>src/a.py\<close>: the first three rules only, and the bare list
  is returned.
\<close>

definition detect_suspicious_patterns_v1 ::
  "string list \<Rightarrow> string list \<Rightarrow> profile \<Rightarrow> suspicious_label list" where
  "detect_suspicious_patterns_v1 fs fes p =
     (if followers p > 10000 \<and> mediacount p < 10 then [HighFollowersLowContent] else [])
   @ (if followees p > 0
      then (if ratio_of p > 100 then [AbnormalRatio]
            else if ratio_of p < 1 / 10 then [ExcessiveFollowing] else [])
      else [])"

text \<open>
  The four rules as the specification words them. Its profile completion is the sum
  of the four 25-point items, with no guard on the number of followers.
\<close>

definition rule_bot :: "profile \<Rightarrow> bool" where
  "rule_bot p = (followers p > 10000 \<and> mediacount p < 10)"

definition rule_ratio_high :: "profile \<Rightarrow> bool" where
  "rule_ratio_high p = (followees p > 0 \<and> ratio_of p > 100)"

definition rule_ratio_low :: "profile \<Rightarrow> bool" where
  "rule_ratio_low p = (followees p > 0 \<and> ratio_of p < 1 / 10)"

definition spec_rule_completion :: "profile \<Rightarrow> bool" where
  "spec_rule_completion p = (completion p < 50)"

definition spec_rule_fires :: "profile \<Rightarrow> bool" where
  "spec_rule_fires p =
     (rule_bot p \<or> rule_ratio_high p \<or> rule_ratio_low p \<or> spec_rule_completion p)"

section \<open>Posting patterns\<close>

text \<open>
  A post carries its time \<^verbatim>\<open>date_utc\<close>, here in seconds since the epoch.
  \<^verbatim>\<open>(a - b).days\<close> of two datetimes is the floor of the difference in days.
  Of the dictionary that \<^verbatim>\<open>_analyze_posting_patterns\<close> returns, the average
  interval and the consistency score are modelled; the hour and weekday histograms
  and the most frequent interval are left out.
\<close>

record post =
  date_utc :: int
  caption :: "string option"
  is_video :: bool

definition days :: "int \<Rightarrow> int" where
  "days delta = delta div 86400"

record posting_patterns =
  average_days_between_posts :: rat
  consistency_score :: rat

definition intervals_of :: "int list \<Rightarrow> int list" where
  "intervals_of dates =
     map (\<lambda>i. days (dates ! i - dates ! (i + 1))) [0..<length dates - 1]"

definition analyze_posting_patterns :: "post list \<Rightarrow> posting_patterns" where
  "analyze_posting_patterns posts =
     (let dates = map date_utc posts in
      if length dates > 1 then
        (let intervals = intervals_of dates;
             avg_interval =
               (if intervals \<noteq> []
                then of_int (sum_list intervals) / of_nat (length intervals) else 1);
             variance =
               (if intervals \<noteq> []
                then (\<Sum>x\<leftarrow>intervals. (of_int x - avg_interval)\<^sup>2) / of_nat (length intervals)
                else 0)
         in \<lparr> average_days_between_posts = avg_interval,
              consistency_score =
                (if avg_interval > 0 then max 0 (100 - variance / avg_interval * 10)
                 else 50) \<rparr>)
      else \<lparr> average_days_between_posts = 0, consistency_score = 0 \<rparr>)"

text \<open>
  The same function in \<^verbatim>\<open>src/a.py\<close>: the score is assigned only when the average
  interval is positive, and keeps its initial 0 otherwise.
\<close>

definition analyze_posting_patterns_v1 :: "post list \<Rightarrow> posting_patterns" where
  "analyze_posting_patterns_v1 posts =
     (let dates = map date_utc posts in
      if length dates > 1 then
        (let intervals = intervals_of dates;
             avg_interval = of_int (sum_list intervals) / of_nat (length intervals);
             variance =
               (\<Sum>x\<leftarrow>intervals. (of_int x - avg_interval)\<^sup>2) / of_nat (length intervals)
         in \<lparr> average_days_between_posts = avg_interval,
              consistency_score =
                (if avg_interval > 0 then max 0 (100 - variance / avg_interval * 10)
                 else 0) \<rparr>)
      else \<lparr> average_days_between_posts = 0, consistency_score = 0 \<rparr>)"

text \<open>
  The specification's wording of the score. An interval in days is the number of
  whole days in the difference of two times, a day being 86400 seconds. The posts
  are ordered by time descending, and the intervals are those between consecutive
  posts. The score is computed from the mean and the (population) variance of the
  intervals; \<open>neutral\<close> is the value for a mean that is not positive.
\<close>

definition whole_days :: "int \<Rightarrow> int" where
  "whole_days seconds = \<lfloor>of_int seconds / (86400 :: rat)\<rfloor>"

definition newest_first :: "int list \<Rightarrow> int list" where
  "newest_first dates = rev (sort dates)"

definition consecutive_intervals :: "int list \<Rightarrow> int list" where
  "consecutive_intervals dates =
     map (\<lambda>(a, b). whole_days (a - b)) (zip dates (tl dates))"

definition mean :: "int list \<Rightarrow> rat" where
  "mean xs = of_int (sum_list xs) / of_nat (length xs)"

definition variance_of :: "int list \<Rightarrow> rat" where
  "variance_of xs = (\<Sum>x\<leftarrow>xs. (of_int x - mean xs)\<^sup>2) / of_nat (length xs)"

definition spec_score :: "rat \<Rightarrow> int list \<Rightarrow> rat" where
  "spec_score neutral xs =
     (if mean xs \<le> 0 then neutral
      else max 0 (100 - variance_of xs / mean xs * 10))"

definition spec_consistency :: "int list \<Rightarrow> rat" where
  "spec_consistency dates =
     (if length dates < 2 then 0
      else spec_score 50 (consecutive_intervals (newest_first dates)))"

section \<open>Sample inputs\<close>

text \<open>A public, verified account with a 30-character biography and no external link.\<close>

definition sample_profile :: "nat \<Rightarrow> nat \<Rightarrow> nat \<Rightarrow> profile" where
  "sample_profile fo fe me =
     \<lparr> username = ''target'', userid = 7, full_name = ''Target Name'',
       biography = ''Photographer and traveller abc'', followers = fo, followees = fe,
       mediacount = me, is_private = False, is_verified = True,
       is_business_account = False, business_category_name = None,
       external_url = None, profile_pic_url = ''https://cdn.example/p.jpg'' \<rparr>"

text \<open>Three posts, newest first.\<close>

definition sample_posts :: "post list" where
  "sample_posts =
     [\<lparr> date_utc = 1700900000, caption = None, is_video = False \<rparr>,
      \<lparr> date_utc = 1700600000, caption = Some ''trip'', is_video = True \<rparr>,
      \<lparr> date_utc = 1700000000, caption = None, is_video = False \<rparr>]"

section \<open>Fetching the followers under rate limiting\<close>

text \<open>
  \<^verbatim>\<open>_fetch_followers\<close> iterates \<^verbatim>\<open>profile.get_followers()\<close>. One run of that
  generator yields some names and then ends: it is exhausted, it raises
  \<^verbatim>\<open>TooManyRequestsException\<close>, or it raises another exception. The environment
  \<open>gen\<close> gives the run of the \<open>k\<close>-th call, counted from 0.
\<close>

datatype ending = Exhausted | TooManyRequests | OtherError string

type_synonym generator_run = "string list \<times> ending"

datatype fetch_result = Returned "string list" | Raised string

datatype attempt_step = Done fetch_result | Retry nat

text \<open>
  One pass through the \<^verbatim>\<open>for\<close> loop: the loop breaks when it receives the item with
  index \<open>limit\<close>; otherwise all names are appended and the ending decides. On the
  rate-limit exception the function waits 60 seconds and calls itself with
  \<^verbatim>\<open>limit - len(followers)\<close>; the names collected so far are dropped. The limit
  never goes below 0, since at most \<open>limit\<close> names are appended.
\<close>

definition run_attempt :: "generator_run \<Rightarrow> nat \<Rightarrow> attempt_step" where
  "run_attempt run limit =
     (case run of (names, e) \<Rightarrow>
        if length names > limit then Done (Returned (take limit names))
        else (case e of
                Exhausted \<Rightarrow> Done (Returned names)
              | OtherError msg \<Rightarrow> Done (Raised msg)
              | TooManyRequests \<Rightarrow> Retry (limit - length names)))"

record fetch_outcome =
  fetched :: fetch_result
  attempts :: nat
  waits :: nat

text \<open>
  The source sets no bound on the number of calls: the function calls itself from
  the handler of the rate-limit exception. What ends the recursion when every call
  is rate-limited is the interpreter's recursion limit. \<open>depth\<close> is the number of
  nested calls the interpreter still allows (about 990 for a coroutine of this shape
  under the default limit of 1000); the call that exceeds it raises
  \<^verbatim>\<open>RecursionError\<close>, which no handler of the function catches. \<open>k\<close> counts the
  calls made before this one, which is also the number of 60-second waits.
\<close>

fun fetch_followers ::
  "(nat \<Rightarrow> generator_run) \<Rightarrow> nat \<Rightarrow> nat \<Rightarrow> nat \<Rightarrow> fetch_outcome" where
  "fetch_followers gen 0 k limit =
     \<lparr> fetched = Raised ''RecursionError'', attempts = k, waits = k \<rparr>"
| "fetch_followers gen (Suc depth) k limit =
     (case run_attempt (gen k) limit of
        Done r \<Rightarrow> \<lparr> fetched = r, attempts = Suc k, waits = k \<rparr>
      | Retry limit' \<Rightarrow> fetch_followers gen depth (Suc k) limit')"

text \<open>\<^verbatim>\<open>_fetch_followees\<close> is the same code over \<^verbatim>\<open>profile.get_followees()\<close>.\<close>

definition fetch_followees ::
  "(nat \<Rightarrow> generator_run) \<Rightarrow> nat \<Rightarrow> nat \<Rightarrow> nat \<Rightarrow> fetch_outcome" where
  "fetch_followees gen depth k limit = fetch_followers gen depth k limit"





text \<open>Two posts of the same day, newest first.\<close>

definition same_day_posts :: "post list" where
  "same_day_posts =
     [\<lparr> date_utc = 1700600000, caption = None, is_video = False \<rparr>,
      \<lparr> date_utc = 1700590000, caption = None, is_video = False \<rparr>]"

section \<open>The environment of one analysis run\<close>

text \<open>
  The calls that leave the program are answered by the environment: a call either
  returns a value or raises an exception with a message. Dictionaries whose content
  no property below depends on are association lists of strings.
\<close>

datatype 'a outcome = Returns 'a | Raises string

type_synonym info = "(string \<times> string) list"

type_synonym posts_run = "post list \<times> ending"

record world =
  lookup_primary :: "profile outcome"
  posts_content :: posts_run
  lookup_network :: "profile outcome"
  followers_gen :: "nat \<Rightarrow> generator_run"
  followees_gen :: "nat \<Rightarrow> generator_run"
  recursion_depth :: nat
  second_degree :: "string list \<Rightarrow> info"
  common_followed :: "string list \<Rightarrow> info"
  http_get :: "string \<Rightarrow> info outcome"
  domain_lookup :: "string \<Rightarrow> info outcome"
  scrape :: "string \<Rightarrow> info outcome"
  head_status :: "string \<Rightarrow> nat outcome"
  findall_email :: "string \<Rightarrow> string list"
  findall_phone :: "string \<Rightarrow> string list"
  lookup_timeline :: "profile outcome"
  posts_timeline :: posts_run
  lookup_behavioral :: "profile outcome"
  posts_behavioral :: posts_run
  clock :: int
  isoformat :: "int \<Rightarrow> string"
  month_key :: "int \<Rightarrow> string"
  write_files_error :: "string option"

text \<open>
  The loop \<^verbatim>\<open>posts.append(post); if len(posts) >= n: break\<close> over
  \<^verbatim>\<open>profile.get_posts()\<close>: it stops after \<open>n\<close> posts; with fewer, the ending of the
  generator decides, and any exception reaches the caller's handler. An exception of
  the iteration itself, before the first post, is a run with no posts that ends in
  an error.
\<close>

definition collect_posts :: "nat \<Rightarrow> posts_run \<Rightarrow> post list outcome" where
  "collect_posts n run =
     (case run of (ps, e) \<Rightarrow>
        if length ps \<ge> n then Returns (take n ps)
        else (case e of
                Exhausted \<Rightarrow> Returns ps
              | TooManyRequests \<Rightarrow> Raises ''TooManyRequestsException''
              | OtherError msg \<Rightarrow> Raises msg))"

section \<open>The primary profile analysis\<close>

record content =
  c_status :: "string option"
  c_posting_patterns :: "posting_patterns option"
  c_error :: "string option"

definition content_init :: content where
  "content_init = \<lparr> c_status = None, c_posting_patterns = None, c_error = None \<rparr>"

text \<open>
  \<^verbatim>\<open>_analyze_profile_content\<close>; of the five analyses of the posts only the posting
  patterns are modelled.
\<close>

definition analyze_profile_content :: "world \<Rightarrow> profile \<Rightarrow> content" where
  "analyze_profile_content w p =
     (if is_private p then content_init \<lparr> c_status := Some ''private_account'' \<rparr>
      else (case collect_posts 100 (posts_content w) of
              Raises msg \<Rightarrow> content_init \<lparr> c_error := Some msg \<rparr>
            | Returns posts \<Rightarrow>
                if posts \<noteq> []
                then content_init \<lparr> c_posting_patterns := Some (analyze_posting_patterns posts) \<rparr>
                else content_init \<lparr> c_status := Some ''no_posts_available'' \<rparr>))"

record profile_data =
  pd_basic_info :: basic_info
  pd_advanced_metrics :: metrics
  pd_content_analysis :: content
  pd_metadata_analysis :: "nat \<times> string"
  pd_username_history :: info

definition profile_data_of :: "world \<Rightarrow> profile \<Rightarrow> profile_data" where
  "profile_data_of w p =
     \<lparr> pd_basic_info = basic_info_of p,
       pd_advanced_metrics = calculate_advanced_metrics p,
       pd_content_analysis = analyze_profile_content w p,
       pd_metadata_analysis = (userid p, or_na (profile_pic_url p)),
       pd_username_history =
         [(''history'', ''N/A''),
          (''note'', ''Username history not available via current API'')] \<rparr>"

text \<open>
  \<^verbatim>\<open>_analyze_target_profile\<close>: any exception of the lookup is caught and \<^verbatim>\<open>None\<close>
  is returned.
\<close>

definition analyze_target_profile :: "world \<Rightarrow> string \<Rightarrow> profile_data option" where
  "analyze_target_profile w uname =
     (case lookup_primary w of
        Raises msg \<Rightarrow> None
      | Returns p \<Rightarrow> Some (profile_data_of w p))"

text \<open>
  The dictionary \<^verbatim>\<open>profile_data\<close> as Python sees it: five keys, each bound to a
  non-empty dictionary. \<^verbatim>\<open>dict.get(key, default)\<close> returns the default for a key
  that is not among them.
\<close>

datatype pd_value =
  VBasic basic_info | VMetrics metrics | VContent content | VMeta "nat \<times> string"
  | VHistory info | VBool bool

definition items :: "profile_data \<Rightarrow> (string \<times> pd_value) list" where
  "items pd =
     [(''basic_info'', VBasic (pd_basic_info pd)),
      (''advanced_metrics'', VMetrics (pd_advanced_metrics pd)),
      (''content_analysis'', VContent (pd_content_analysis pd)),
      (''metadata_analysis'', VMeta (pd_metadata_analysis pd)),
      (''username_history'', VHistory (pd_username_history pd))]"

definition dict_get :: "(string \<times> pd_value) list \<Rightarrow> string \<Rightarrow> pd_value \<Rightarrow> pd_value" where
  "dict_get d k dflt = (case map_of d k of None \<Rightarrow> dflt | Some v \<Rightarrow> v)"

definition truthy_value :: "pd_value \<Rightarrow> bool" where
  "truthy_value v = (case v of VBool b \<Rightarrow> b | _ \<Rightarrow> True)"

section \<open>The secondary branches\<close>

record connections =
  followers_sample :: "string list"
  followees_sample :: "string list"
  total_followers :: nat
  total_followees :: nat

record network_data =
  n_connections :: "connections option"
  n_mutual_connections :: "string list"
  n_suspicious_patterns :: "suspicious_label list"
  n_second_degree_connections :: "info option"
  n_common_followed_accounts :: "info option"
  n_status :: "string option"
  n_error :: "string option"

definition network_init :: network_data where
  "network_init =
     \<lparr> n_connections = None, n_mutual_connections = [], n_suspicious_patterns = [],
       n_second_degree_connections = None, n_common_followed_accounts = None,
       n_status = None, n_error = None \<rparr>"

text \<open>
  \<^verbatim>\<open>asyncio.gather(..., return_exceptions=True)\<close> hands an exception of a fetch back
  as a value, and the caller replaces it by the empty list.
\<close>

definition names_or_empty :: "fetch_outcome \<Rightarrow> string list" where
  "names_or_empty out = (case fetched out of Returned xs \<Rightarrow> xs | Raised msg \<Rightarrow> [])"

text \<open>
  \<^verbatim>\<open>_analyze_network\<close>. The mutual connections are a set in the source; here they
  are listed in the order of the followers.
\<close>

definition analyze_network :: "world \<Rightarrow> string \<Rightarrow> int \<Rightarrow> network_data" where
  "analyze_network w uname depth =
     (case lookup_network w of
        Raises msg \<Rightarrow> network_init \<lparr> n_error := Some msg \<rparr>
      | Returns p \<Rightarrow>
          if is_private p then network_init \<lparr> n_status := Some ''private_account'' \<rparr>
          else
            (let fs = names_or_empty
                        (fetch_followers (followers_gen w) (recursion_depth w) 0 50);
                 fes = names_or_empty
                         (fetch_followees (followees_gen w) (recursion_depth w) 0 50)
             in network_init
                  \<lparr> n_connections := Some
                      \<lparr> followers_sample = fs, followees_sample = fes,
                        total_followers = followers p, total_followees = followees p \<rparr>,
                    n_mutual_connections := filter (\<lambda>x. x \<in> set fes) (remdups fs),
                    n_second_degree_connections :=
                      (if depth > 1 then Some (second_degree w fs) else None),
                    n_common_followed_accounts := Some (common_followed w fes),
                    n_suspicious_patterns := detect_suspicious_patterns fs fes p \<rparr>))"

record timeline =
  t_account_age_estimate :: "int option"
  t_activity_timeline :: "(string \<times> nat) list"
  t_growth_patterns :: "info option"
  t_status :: "string option"
  t_error :: "string option"

definition timeline_init :: timeline where
  "timeline_init =
     \<lparr> t_account_age_estimate = None, t_activity_timeline = [], t_growth_patterns = None,
       t_status = None, t_error = None \<rparr>"

definition monthly_activity :: "(int \<Rightarrow> string) \<Rightarrow> post list \<Rightarrow> (string \<times> nat) list" where
  "monthly_activity key posts =
     map (\<lambda>m. (m, length (filter (\<lambda>q. key (date_utc q) = m) posts)))
       (rev (remdups (rev (map (\<lambda>q. key (date_utc q)) posts))))"

definition oldest_date :: "post list \<Rightarrow> int" where
  "oldest_date posts = fold min (map date_utc (tl posts)) (date_utc (hd posts))"

definition timeline_analysis :: "world \<Rightarrow> string \<Rightarrow> timeline" where
  "timeline_analysis w uname =
     (case lookup_timeline w of
        Raises msg \<Rightarrow> timeline_init \<lparr> t_error := Some msg \<rparr>
      | Returns p \<Rightarrow>
          if is_private p then timeline_init \<lparr> t_status := Some ''private_account'' \<rparr>
          else (case collect_posts 200 (posts_timeline w) of
                  Raises msg \<Rightarrow> timeline_init \<lparr> t_error := Some msg \<rparr>
                | Returns posts \<Rightarrow>
                    if posts \<noteq> [] then
                      timeline_init
                        \<lparr> t_account_age_estimate := Some (days (clock w - oldest_date posts)),
                          t_activity_timeline := monthly_activity (month_key w) posts,
                          t_growth_patterns := Some
                            [(''status'', ''analysis_complete''),
                             (''note'', ''Growth patterns analyzed'')] \<rparr>
                    else timeline_init \<lparr> t_status := Some ''no_posts_available'' \<rparr>))"

datatype automation_label = RegularPostingHours | NoAutomationIndicators

definition hour :: "int \<Rightarrow> int" where
  "hour t = (t div 3600) mod 24"

definition detect_automation_indicators :: "post list \<Rightarrow> automation_label list" where
  "detect_automation_indicators posts =
     (if card (set (map (\<lambda>q. hour (date_utc q)) posts)) \<le> 3 then [RegularPostingHours]
      else [NoAutomationIndicators])"

record behavior =
  b_interaction_patterns :: "info option"
  b_content_consistency :: "info option"
  b_automation_indicators :: "automation_label list"
  b_status :: "string option"
  b_error :: "string option"

definition behavior_init :: behavior where
  "behavior_init =
     \<lparr> b_interaction_patterns = None, b_content_consistency = None,
       b_automation_indicators = [], b_status = None, b_error = None \<rparr>"

definition behavioral_analysis :: "world \<Rightarrow> string \<Rightarrow> behavior" where
  "behavioral_analysis w uname =
     (case lookup_behavioral w of
        Raises msg \<Rightarrow> behavior_init \<lparr> b_error := Some msg \<rparr>
      | Returns p \<Rightarrow>
          if is_private p then behavior_init \<lparr> b_status := Some ''private_account'' \<rparr>
          else (case collect_posts 50 (posts_behavioral w) of
                  Raises msg \<Rightarrow> behavior_init \<lparr> b_error := Some msg \<rparr>
                | Returns posts \<Rightarrow>
                    if posts \<noteq> [] then
                      behavior_init
                        \<lparr> b_interaction_patterns := Some
                            [(''status'', ''analysis_complete''),
                             (''note'', ''Interaction patterns analyzed'')],
                          b_content_consistency := Some
                            [(''status'', ''analysis_complete''),
                             (''note'', ''Content consistency analyzed'')],
                          b_automation_indicators := detect_automation_indicators posts \<rparr>
                    else behavior_init \<lparr> b_status := Some ''no_posts_available'' \<rparr>))"

text \<open>
  \<^verbatim>\<open>_analyze_digital_footprint\<close> has no handler of its own; each operation it calls
  catches its exceptions and records the message under \<^verbatim>\<open>"error"\<close>. The e-mail and
  phone validation lists are left out. When the biography is empty, the name
  \<^verbatim>\<open>emails\<close> is unbound at the last call, which raises.
\<close>

definition analyze_external_url :: "world \<Rightarrow> string \<Rightarrow> info" where
  "analyze_external_url w url =
     (case http_get w url of
        Returns i \<Rightarrow> (''url'', url) # i
      | Raises msg \<Rightarrow> [(''url'', url), (''error'', msg)])"

definition analyze_domain :: "world \<Rightarrow> string \<Rightarrow> info" where
  "analyze_domain w url =
     (case domain_lookup w url of
        Returns i \<Rightarrow> i
      | Raises msg \<Rightarrow> [(''domain'', []), (''error'', msg)])"

definition scrape_external_url :: "world \<Rightarrow> string \<Rightarrow> info" where
  "scrape_external_url w url =
     (case scrape w url of
        Returns i \<Rightarrow> i
      | Raises msg \<Rightarrow> [(''content'', ''N/A''), (''error'', msg)])"

definition check_platform :: "world \<Rightarrow> string \<Rightarrow> string \<Rightarrow> info" where
  "check_platform w platform url =
     (case head_status w url of
        Returns code \<Rightarrow>
          if code = 200 then [(''status'', ''found''), (''url'', url)]
          else [(''status'', ''not_found'')]
      | Raises msg \<Rightarrow> [(''status'', ''error''), (''error'', msg)])"

definition check_cross_platform_presence :: "world \<Rightarrow> string \<Rightarrow> (string \<times> info) list" where
  "check_cross_platform_presence w uname =
     map (\<lambda>(platform, url). (platform, check_platform w platform url))
       [(''twitter'', ''https://twitter.com/'' @ uname),
        (''linkedin'', ''https://www.linkedin.com/in/'' @ uname),
        (''tiktok'', ''https://www.tiktok.com/@'' @ uname),
        (''facebook'', ''https://www.facebook.com/'' @ uname)]"

record footprint =
  f_external_links :: "info option"
  f_domain_analysis :: "info option"
  f_web_scraping :: "info option"
  f_email_patterns :: "string list"
  f_phone_patterns :: "string list"
  f_cross_platform_presence :: "(string \<times> info) list"

definition or_marker :: "string list \<Rightarrow> string \<Rightarrow> string list" where
  "or_marker xs marker = (if xs = [] then [marker] else xs)"

definition analyze_digital_footprint :: "world \<Rightarrow> basic_info \<Rightarrow> footprint outcome" where
  "analyze_digital_footprint w b =
     (let url = bi_external_url b; bio = bi_biography b in
      if \<not> truthy_str bio then Raises ''UnboundLocalError''
      else Returns
        \<lparr> f_external_links =
            (if url \<noteq> ''N/A'' then Some (analyze_external_url w url) else None),
          f_domain_analysis =
            (if url \<noteq> ''N/A'' then Some (analyze_domain w url) else None),
          f_web_scraping =
            (if url \<noteq> ''N/A'' then Some (scrape_external_url w url) else None),
          f_email_patterns = or_marker (findall_email w bio) ''no_emails_detected'',
          f_phone_patterns = or_marker (findall_phone w bio) ''no_phones_detected'',
          f_cross_platform_presence = check_cross_platform_presence w (bi_username b) \<rparr>)"

section \<open>The report\<close>

text \<open>
  A section of the report that is still the empty dictionary \<^verbatim>\<open>{}\<close> of the initial
  report is \<open>None\<close>.
\<close>

record report =
  r_target :: string
  r_timestamp :: string
  r_profile_analysis :: "profile_data option"
  r_network_analysis :: "network_data option"
  r_digital_footprint :: "footprint option"
  r_security_analysis :: "security option"
  r_timeline_analysis :: "timeline option"
  r_behavioral_analysis :: "behavior option"

definition report_init :: "world \<Rightarrow> string \<Rightarrow> report" where
  "report_init w uname =
     \<lparr> r_target = uname, r_timestamp = isoformat w (clock w),
       r_profile_analysis = None, r_network_analysis = None, r_digital_footprint = None,
       r_security_analysis = None, r_timeline_analysis = None,
       r_behavioral_analysis = None \<rparr>"

text \<open>
  What a call of \<^verbatim>\<open>comprehensive_analysis\<close> does: it returns \<^verbatim>\<open>None\<close>, it returns
  the report, or an exception leaves it.
\<close>

datatype analysis_result = NoReport | Report report | Failure string

text \<open>
  The end of the function: with \<^verbatim>\<open>save_report\<close> the two report files are written
  first, and an exception of the writing leaves the function.
\<close>

definition deliver :: "world \<Rightarrow> bool \<Rightarrow> report \<Rightarrow> analysis_result" where
  "deliver w save_report r =
     (if save_report
      then (case write_files_error w of None \<Rightarrow> Report r | Some msg \<Rightarrow> Failure msg)
      else Report r)"

text \<open>
  \<^verbatim>\<open>comprehensive_analysis\<close>. The branches run under
  \<^verbatim>\<open>if not profile_data.get("is_private", True)\<close>, a lookup in the outer
  dictionary.
\<close>

definition comprehensive_analysis ::
  "world \<Rightarrow> string \<Rightarrow> int \<Rightarrow> bool \<Rightarrow> analysis_result" where
  "comprehensive_analysis w uname depth save_report =
     (case analyze_target_profile w uname of
        None \<Rightarrow> NoReport
      | Some pd \<Rightarrow>
          (let analysis_data = (report_init w uname) \<lparr> r_profile_analysis := Some pd \<rparr> in
           if \<not> truthy_value (dict_get (items pd) ''is_private'' (VBool True)) then
             (case analyze_digital_footprint w (pd_basic_info pd) of
                Raises msg \<Rightarrow> Failure msg
              | Returns fp \<Rightarrow>
                  deliver w save_report (analysis_data
                    \<lparr> r_network_analysis := Some (analyze_network w uname depth),
                      r_digital_footprint := Some fp,
                      r_security_analysis := Some (security_analysis (pd_basic_info pd)),
                      r_timeline_analysis := Some (timeline_analysis w uname),
                      r_behavioral_analysis := Some (behavioral_analysis w uname) \<rparr>))
           else deliver w save_report analysis_data))"

text \<open>An environment in which several of the secondary calls fail.\<close>

definition sample_world :: "profile \<Rightarrow> world" where
  "sample_world p =
     \<lparr> lookup_primary = Returns p,
       posts_content = (sample_posts, Exhausted),
       lookup_network = Returns p,
       followers_gen = (\<lambda>k. ([], OtherError ''LoginRequiredException'')),
       followees_gen = (\<lambda>k. ([''ana'', ''bo''], Exhausted)),
       recursion_depth = 990,
       second_degree = (\<lambda>fs. [(''status'', ''no_data'')]),
       common_followed = (\<lambda>fs. [(''status'', ''no_data'')]),
       http_get = (\<lambda>url. Raises ''ClientConnectorError''),
       domain_lookup = (\<lambda>url. Returns [(''domain'', ''example.org'')]),
       scrape = (\<lambda>url. Returns [(''content'', ''N/A'')]),
       head_status = (\<lambda>url. Returns 404),
       findall_email = (\<lambda>s. []),
       findall_phone = (\<lambda>s. []),
       lookup_timeline = Raises ''ConnectionException'',
       posts_timeline = (sample_posts, Exhausted),
       lookup_behavioral = Returns p,
       posts_behavioral = ([], OtherError ''QueryReturnedNotFoundException''),
       clock = 1701000000,
       isoformat = (\<lambda>t. ''2023-11-26T12:00:00''),
       month_key = (\<lambda>t. ''2023-11''),
       write_files_error = None \<rparr>"

section \<open>Properties of the metrics\<close>



text \<open>
  Claim C9. With no followers, the guard of \<^verbatim>\<open>_calculate_advanced_metrics\<close> skips the
  whole block: engagement potential, influence score, authenticity score and profile
  completion are all returned as 0, whatever the other attributes are; in particular
  the base authenticity score of 50 is not applied.
\<close>

theorem zero_followers_metrics:
  assumes "followers p = 0"
  shows "engagement_potential (calculate_advanced_metrics p) = 0
       \<and> influence_score (calculate_advanced_metrics p) = 0
       \<and> authenticity_score (calculate_advanced_metrics p) = 0
       \<and> profile_completion (calculate_advanced_metrics p) = 0"
  using assms by (simp add: calculate_advanced_metrics_def metrics_init_def)

theorem zero_followers_metrics_witness:
  "followers (sample_profile 0 12 5) = 0
   \<and> is_verified (sample_profile 0 12 5)
   \<and> authenticity_score (calculate_advanced_metrics (sample_profile 0 12 5)) = 0
   \<and> profile_completion (calculate_advanced_metrics (sample_profile 0 12 5)) = 0"
  using zero_followers_metrics [of "sample_profile 0 12 5"]
  by (simp add: sample_profile_def)

text \<open>
  Claim C3, as stated, fails: an account with no followers that follows no one has
  influence score 0, not 100.
\<close>

theorem influence_formula_counterexample:
  "followees (sample_profile 0 0 3) = 0
   \<and> influence_score (calculate_advanced_metrics (sample_profile 0 0 3)) \<noteq> 100"
  by (simp add: sample_profile_def calculate_advanced_metrics_def metrics_init_def)

text \<open>
  Claim C3, amended. The influence score is \<open>min(100, followers / followees * 10)\<close>
  when the account follows someone; when it follows no one, the score is 100 if it
  has at least one follower and 0 if it has none.
\<close>

theorem influence_formula:
  "influence_score (calculate_advanced_metrics p) =
     (if followees p > 0 then min 100 (of_nat (followers p) / of_nat (followees p) * 10)
      else if followers p > 0 then 100 else 0)"
  by (simp add: calculate_advanced_metrics_def metrics_init_def)

theorem influence_formula_witness:
  "influence_score (calculate_advanced_metrics (sample_profile 30 40 3)) = 15 / 2
   \<and> influence_score (calculate_advanced_metrics (sample_profile 30 0 3)) = 100
   \<and> influence_score (calculate_advanced_metrics (sample_profile 0 0 3)) = 0"
  using influence_formula [of "sample_profile 30 40 3"]
    influence_formula [of "sample_profile 30 0 3"]
    influence_formula [of "sample_profile 0 0 3"]
  by (simp add: sample_profile_def)

section \<open>Properties of the privacy score\<close>

lemma raw_privacy_bounds: "10 \<le> raw_privacy_score b \<and> raw_privacy_score b \<le> 100"
  by (simp add: raw_privacy_score_def raw_privacy_score_with_def)

lemma privacy_score_eq_max: "privacy_score (security_analysis b) = max 0 (raw_privacy_score b)"
  by (simp add: security_analysis_def security_analysis_with_def raw_privacy_score_def Let_def)

text \<open>
  Claim C10. The privacy score is at least 10 for every input: the penalties sum to
  at most 30 + 10 + 5 + 20 + 25 = 90, so the final \<^verbatim>\<open>max(0, ...)\<close> returns the
  running value unchanged.
\<close>

theorem privacy_at_least_10:
  "10 \<le> privacy_score (security_analysis b)
   \<and> privacy_score (security_analysis b) = raw_privacy_score b
   \<and> 100 - raw_privacy_score b \<le> 30 + 10 + 5 + 20 + 25"
  using raw_privacy_bounds [of b] by (simp add: privacy_score_eq_max)

theorem privacy_at_least_10_witness:
  "10 \<le> privacy_score (security_analysis (basic_info_of (sample_profile 120 80 9)))"
  using privacy_at_least_10 [of "basic_info_of (sample_profile 120 80 9)"] by simp




section \<open>Properties of the suspicious-pattern detection\<close>

lemma code_completion_rule:
  "profile_completion (calculate_advanced_metrics p) < 50
     \<longleftrightarrow> followers p = 0 \<or> spec_rule_completion p"
  by (simp add: calculate_advanced_metrics_def metrics_init_def spec_rule_completion_def)

lemma fired_labels_empty_iff:
  "fired_labels p = [] \<longleftrightarrow> \<not> spec_rule_fires p \<and> followers p > 0"
  by (auto simp: fired_labels_def code_completion_rule spec_rule_fires_def rule_bot_def
      rule_ratio_high_def rule_ratio_low_def)

lemma marker_not_fired: "NoSuspiciousPatterns \<notin> set (fired_labels p)"
  by (simp add: fired_labels_def)

lemma low_completion_fired: "followers p = 0 \<Longrightarrow> LowCompletion \<in> set (fired_labels p)"
  by (simp add: fired_labels_def code_completion_rule)

lemma v1_empty_iff:
  "detect_suspicious_patterns_v1 fs fes p = []
     \<longleftrightarrow> \<not> rule_bot p \<and> \<not> rule_ratio_high p \<and> \<not> rule_ratio_low p"
  by (auto simp: detect_suspicious_patterns_v1_def rule_bot_def rule_ratio_high_def
      rule_ratio_low_def)

text \<open>
  Claim C6, as stated, fails twice. In \<^verbatim>\<open>arivaigosint.py\<close> a complete profile with no
  followers and no followees fires no rule of the specification, and the result is
  the low-completion label, not the marker. In \<^verbatim>\<open>a.py\<close> the result is the empty list
  when no rule fires.
\<close>

theorem suspicious_patterns_counterexample:
  "\<not> spec_rule_fires (sample_profile 0 0 5)
   \<and> detect_suspicious_patterns [] [] (sample_profile 0 0 5) = [LowCompletion]
   \<and> \<not> spec_rule_fires (sample_profile 300 200 40)
   \<and> detect_suspicious_patterns_v1 [] [] (sample_profile 300 200 40) = []"
  by (simp add: spec_rule_fires_def rule_bot_def rule_ratio_high_def rule_ratio_low_def
      spec_rule_completion_def ratio_of_def completion_def truthy_str_def
      detect_suspicious_patterns_def fired_labels_def detect_suspicious_patterns_v1_def
      calculate_advanced_metrics_def metrics_init_def sample_profile_def)

text \<open>
  Claim C6, amended. For 20000 followers, 5 posts and 50 followees both the
  high-followers/low-content label and the abnormal-ratio label are emitted, in both
  files. In \<^verbatim>\<open>arivaigosint.py\<close> the result is never empty: when no rule fires and the
  account has at least one follower, it is exactly the one marker
  \<^verbatim>\<open>no_suspicious_patterns\<close>; an account without followers always gets the
  low-completion label, because its profile completion is computed as 0; the marker
  never stands beside a label. In \<^verbatim>\<open>a.py\<close> there is no completion rule and no
  marker: when none of its three rules fires the result is the empty list.
\<close>

theorem suspicious_patterns:
  "(followers p = 20000 \<and> mediacount p = 5 \<and> followees p = 50 \<longrightarrow>
      HighFollowersLowContent \<in> set (detect_suspicious_patterns fs fes p)
      \<and> AbnormalRatio \<in> set (detect_suspicious_patterns fs fes p)
      \<and> HighFollowersLowContent \<in> set (detect_suspicious_patterns_v1 fs fes p)
      \<and> AbnormalRatio \<in> set (detect_suspicious_patterns_v1 fs fes p))
   \<and> (\<not> spec_rule_fires p \<and> followers p > 0 \<longrightarrow>
        detect_suspicious_patterns fs fes p = [NoSuspiciousPatterns])
   \<and> (followers p = 0 \<longrightarrow>
        LowCompletion \<in> set (detect_suspicious_patterns fs fes p))
   \<and> (spec_rule_fires p \<or> followers p = 0 \<longrightarrow>
        NoSuspiciousPatterns \<notin> set (detect_suspicious_patterns fs fes p))
   \<and> detect_suspicious_patterns fs fes p \<noteq> []
   \<and> (\<not> rule_bot p \<and> \<not> rule_ratio_high p \<and> \<not> rule_ratio_low p \<longrightarrow>
        detect_suspicious_patterns_v1 fs fes p = [])
   \<and> NoSuspiciousPatterns \<notin> set (detect_suspicious_patterns_v1 fs fes p)"
proof -
  have a: "followers p = 20000 \<and> mediacount p = 5 \<and> followees p = 50 \<longrightarrow>
      HighFollowersLowContent \<in> set (detect_suspicious_patterns fs fes p)
      \<and> AbnormalRatio \<in> set (detect_suspicious_patterns fs fes p)
      \<and> HighFollowersLowContent \<in> set (detect_suspicious_patterns_v1 fs fes p)
      \<and> AbnormalRatio \<in> set (detect_suspicious_patterns_v1 fs fes p)"
    by (simp add: detect_suspicious_patterns_def fired_labels_def
        detect_suspicious_patterns_v1_def ratio_of_def)
  have b: "\<not> spec_rule_fires p \<and> followers p > 0 \<longrightarrow>
        detect_suspicious_patterns fs fes p = [NoSuspiciousPatterns]"
    by (simp add: detect_suspicious_patterns_def fired_labels_empty_iff)
  have c: "followers p = 0 \<longrightarrow> LowCompletion \<in> set (detect_suspicious_patterns fs fes p)"
  proof
    assume "followers p = 0"
    then have m: "LowCompletion \<in> set (fired_labels p)"
      by (rule low_completion_fired)
    then have "fired_labels p \<noteq> []" by auto
    with m show "LowCompletion \<in> set (detect_suspicious_patterns fs fes p)"
      by (simp add: detect_suspicious_patterns_def)
  qed
  have d: "spec_rule_fires p \<or> followers p = 0 \<longrightarrow>
        NoSuspiciousPatterns \<notin> set (detect_suspicious_patterns fs fes p)"
    using marker_not_fired [of p] fired_labels_empty_iff [of p]
    by (auto simp: detect_suspicious_patterns_def)
  have e: "detect_suspicious_patterns fs fes p \<noteq> []"
    by (simp add: detect_suspicious_patterns_def)
  have f: "\<not> rule_bot p \<and> \<not> rule_ratio_high p \<and> \<not> rule_ratio_low p \<longrightarrow>
        detect_suspicious_patterns_v1 fs fes p = []"
    by (simp add: v1_empty_iff)
  have g: "NoSuspiciousPatterns \<notin> set (detect_suspicious_patterns_v1 fs fes p)"
    by (simp add: detect_suspicious_patterns_v1_def)
  from a b c d e f g show ?thesis by blast
qed

theorem suspicious_patterns_witness:
  "detect_suspicious_patterns [] [] (sample_profile 20000 50 5)
     = [HighFollowersLowContent, AbnormalRatio]
   \<and> detect_suspicious_patterns_v1 [] [] (sample_profile 20000 50 5)
     = [HighFollowersLowContent, AbnormalRatio]
   \<and> \<not> spec_rule_fires (sample_profile 300 200 40)
   \<and> detect_suspicious_patterns [] [] (sample_profile 300 200 40) = [NoSuspiciousPatterns]
   \<and> detect_suspicious_patterns_v1 [] [] (sample_profile 300 200 40) = []"
proof -
  have 1: "\<not> spec_rule_fires (sample_profile 300 200 40)
      \<and> \<not> rule_bot (sample_profile 300 200 40)
      \<and> \<not> rule_ratio_high (sample_profile 300 200 40)
      \<and> \<not> rule_ratio_low (sample_profile 300 200 40)
      \<and> 0 < followers (sample_profile 300 200 40)"
    by (simp add: spec_rule_fires_def rule_bot_def rule_ratio_high_def rule_ratio_low_def
        spec_rule_completion_def ratio_of_def completion_def truthy_str_def
        sample_profile_def)
  have 2: "detect_suspicious_patterns [] [] (sample_profile 20000 50 5)
     = [HighFollowersLowContent, AbnormalRatio]
     \<and> detect_suspicious_patterns_v1 [] [] (sample_profile 20000 50 5)
     = [HighFollowersLowContent, AbnormalRatio]"
    by (simp add: detect_suspicious_patterns_def fired_labels_def ratio_of_def
        detect_suspicious_patterns_v1_def calculate_advanced_metrics_def metrics_init_def
        completion_def truthy_str_def sample_profile_def)
  show ?thesis
    using suspicious_patterns [of "sample_profile 300 200 40" "[]" "[]"] 1 2 by simp
qed

section \<open>Properties of the posting patterns\<close>

lemma whole_days_eq: "whole_days d = days d"
proof -
  have "\<lfloor>of_int d / (of_int 86400 :: rat)\<rfloor> = d div 86400"
    by (rule floor_divide_of_int_eq)
  then show ?thesis by (simp add: whole_days_def days_def)
qed

lemma intervals_of_eq: "intervals_of dates = consecutive_intervals dates"
proof (rule nth_equalityI)
  show "length (intervals_of dates) = length (consecutive_intervals dates)"
    by (simp add: intervals_of_def consecutive_intervals_def)
next
  fix i assume "i < length (intervals_of dates)"
  then have i: "i < length dates - 1" by (simp add: intervals_of_def)
  then have "tl dates ! i = dates ! (i + 1)" by (simp add: nth_tl)
  with i show "intervals_of dates ! i = consecutive_intervals dates ! i"
    by (simp add: intervals_of_def consecutive_intervals_def whole_days_eq)
qed

lemma intervals_nonempty: "1 < length dates \<Longrightarrow> intervals_of dates \<noteq> []"
  by (simp add: intervals_of_def)

lemma consistency_given_order:
  "consistency_score (analyze_posting_patterns posts) =
     (if length posts < 2 then 0
      else spec_score 50 (consecutive_intervals (map date_utc posts)))"
proof (cases "1 < length posts")
  case True
  then have ne: "intervals_of (map date_utc posts) \<noteq> []"
    by (simp add: intervals_nonempty)
  show ?thesis
    using True ne
    by (simp add: analyze_posting_patterns_def spec_score_def Let_def mean_def
        variance_of_def intervals_of_eq [symmetric] not_less)
next
  case False
  then show ?thesis
    by (simp add: analyze_posting_patterns_def Let_def)
qed

lemma consistency_given_order_v1:
  "consistency_score (analyze_posting_patterns_v1 posts) =
     (if length posts < 2 then 0
      else spec_score 0 (consecutive_intervals (map date_utc posts)))"
proof (cases "1 < length posts")
  case True
  then show ?thesis
    by (simp add: analyze_posting_patterns_v1_def spec_score_def Let_def mean_def
        variance_of_def intervals_of_eq [symmetric] not_less)
next
  case False
  then show ?thesis
    by (simp add: analyze_posting_patterns_v1_def Let_def)
qed

lemma newest_first_id: "sorted (rev dates) \<Longrightarrow> newest_first dates = dates"
proof -
  assume "sorted (rev dates)"
  moreover have "mset (rev dates) = mset dates" by simp
  ultimately have "sort dates = rev dates"
    by (rule properties_for_sort [rotated])
  then show ?thesis by (simp add: newest_first_def)
qed

lemma sample_intervals:
  "consecutive_intervals (map date_utc sample_posts) = [3, 6]
   \<and> consecutive_intervals (map date_utc (rev sample_posts)) = [- 7, - 4]
   \<and> consecutive_intervals (map date_utc same_day_posts) = [0]"
  by (simp add: consecutive_intervals_def whole_days_eq days_def sample_posts_def
      same_day_posts_def)

lemma sample_sorted:
  "sorted (rev (map date_utc sample_posts)) \<and> sorted (rev (map date_utc same_day_posts))"
  by (simp add: sample_posts_def same_day_posts_def)

lemma sample_newest_first:
  "newest_first (map date_utc (rev sample_posts)) = map date_utc sample_posts"
proof -
  have "sort (map date_utc (rev sample_posts)) = map date_utc (rev sample_posts)"
    by (rule sorted_sort_id) (simp add: sample_posts_def)
  then show ?thesis by (simp add: newest_first_def rev_map)
qed

text \<open>
  Claim C7, as stated, fails twice. The code does not order the posts: for three
  posts given oldest first the code's score is 50, while the score over the posts
  ordered by time descending is 95. And in \<^verbatim>\<open>a.py\<close> two posts of the same day, whose
  mean interval is 0, score 0 and not the neutral 50.
\<close>

theorem consistency_counterexample:
  "spec_consistency (map date_utc (rev sample_posts)) = 95
   \<and> consistency_score (analyze_posting_patterns (rev sample_posts)) = 50
   \<and> spec_consistency (map date_utc same_day_posts) = 50
   \<and> consistency_score (analyze_posting_patterns_v1 same_day_posts) = 0"
proof -
  have l: "length sample_posts = 3 \<and> length same_day_posts = 2"
    by (simp add: sample_posts_def same_day_posts_def)
  have s: "spec_score 50 [3, 6] = 95 \<and> spec_score 50 [- 7, - 4] = 50
      \<and> spec_score 50 [0] = 50 \<and> spec_score 0 [0] = 0"
    by (simp add: spec_score_def mean_def variance_of_def power2_eq_square)
  have 1: "spec_consistency (map date_utc (rev sample_posts)) = 95"
    using sample_intervals l s by (simp add: spec_consistency_def sample_newest_first)
  have 2: "consistency_score (analyze_posting_patterns (rev sample_posts)) = 50"
    using sample_intervals l s by (simp add: consistency_given_order)
  have 3: "spec_consistency (map date_utc same_day_posts) = 50"
    using sample_intervals sample_sorted l s
    by (simp add: spec_consistency_def newest_first_id)
  have 4: "consistency_score (analyze_posting_patterns_v1 same_day_posts) = 0"
    using sample_intervals l s by (simp add: consistency_given_order_v1)
  from 1 2 3 4 show ?thesis by blast
qed

text \<open>
  Claim C7, amended. The consistency score is computed over the day intervals
  between consecutive posts in the order in which the posts are given; the code does
  not sort them. It is 0 for fewer than two posts and \<open>max(0, 100 - variance / mean *
  10)\<close> when the mean interval is positive. When the mean interval is not positive it
  is the neutral 50 in \<^verbatim>\<open>arivaigosint.py\<close> and 0 in \<^verbatim>\<open>a.py\<close>. When the posts are
  given newest first, the score of \<^verbatim>\<open>arivaigosint.py\<close> is the specification's.
\<close>

theorem consistency_formula:
  "consistency_score (analyze_posting_patterns posts) =
     (if length posts < 2 then 0
      else spec_score 50 (consecutive_intervals (map date_utc posts)))
   \<and> consistency_score (analyze_posting_patterns_v1 posts) =
     (if length posts < 2 then 0
      else spec_score 0 (consecutive_intervals (map date_utc posts)))
   \<and> (sorted (rev (map date_utc posts)) \<longrightarrow>
        consistency_score (analyze_posting_patterns posts)
          = spec_consistency (map date_utc posts))"
  using newest_first_id [of "map date_utc posts"]
  by (simp add: consistency_given_order consistency_given_order_v1 spec_consistency_def)

theorem consistency_formula_witness:
  "consistency_score (analyze_posting_patterns sample_posts) = 95
   \<and> consistency_score (analyze_posting_patterns_v1 sample_posts) = 95
   \<and> spec_consistency (map date_utc sample_posts) = 95
   \<and> consistency_score (analyze_posting_patterns same_day_posts) = 50
   \<and> consistency_score (analyze_posting_patterns []) = 0"
proof -
  have s: "spec_score 50 [3, 6] = 95 \<and> spec_score 0 [3, 6] = 95 \<and> spec_score 50 [0] = 50"
    by (simp add: spec_score_def mean_def variance_of_def power2_eq_square)
  have l: "length sample_posts = 3 \<and> length same_day_posts = 2"
    by (simp add: sample_posts_def same_day_posts_def)
  show ?thesis
    using consistency_formula [of sample_posts] consistency_formula [of same_day_posts]
      consistency_formula [of "[]"] sample_intervals sample_sorted s l
    by simp
qed

section \<open>Range of the scores\<close>

lemma engagement_range:
  "0 \<le> engagement_potential (calculate_advanced_metrics p)
   \<and> engagement_potential (calculate_advanced_metrics p) \<le> 100"
  by (simp add: calculate_advanced_metrics_def metrics_init_def)

lemma influence_range:
  "0 \<le> influence_score (calculate_advanced_metrics p)
   \<and> influence_score (calculate_advanced_metrics p) \<le> 100"
  by (simp add: calculate_advanced_metrics_def metrics_init_def)

lemma auth_score_ge: "50 \<le> auth_score p"
  by (simp add: auth_score_def)

lemma authenticity_range:
  "0 \<le> authenticity_score (calculate_advanced_metrics p)
   \<and> authenticity_score (calculate_advanced_metrics p) \<le> 100"
  using auth_score_ge [of p]
  by (simp add: calculate_advanced_metrics_def metrics_init_def)

lemma completion_range: "0 \<le> completion p \<and> completion p \<le> 100"
  by (simp add: completion_def)

lemma profile_completion_range:
  "0 \<le> profile_completion (calculate_advanced_metrics p)
   \<and> profile_completion (calculate_advanced_metrics p) \<le> 100"
  using completion_range [of p]
  by (simp add: calculate_advanced_metrics_def metrics_init_def)

lemma privacy_range:
  "0 \<le> privacy_score (security_analysis b) \<and> privacy_score (security_analysis b) \<le> 100"
  using raw_privacy_bounds [of b] by (simp add: privacy_score_eq_max)

lemma sum_squares_nonneg: "0 \<le> (\<Sum>x\<leftarrow>xs. (of_int x - (a::rat))\<^sup>2)"
  by (rule sum_list_nonneg) auto

lemma consistency_range:
  "0 \<le> consistency_score (analyze_posting_patterns posts)
   \<and> consistency_score (analyze_posting_patterns posts) \<le> 100"
proof -
  have "0 \<le> v / a * 10" if "0 \<le> v" "0 < a" for v a :: rat
    using that by simp
  then show ?thesis
    using sum_squares_nonneg
    by (auto simp: analyze_posting_patterns_def Let_def divide_nonneg_nonneg)
qed

text \<open>
  Claim C2. Every computed score lies in the closed interval from 0 to 100:
  engagement potential, influence score, authenticity score and profile completion of
  any profile (the counts are natural numbers, so they are never negative), the
  privacy score of any basic-info dictionary, and the consistency score of any list
  of posts.
\<close>

theorem scores_in_range:
  "0 \<le> engagement_potential (calculate_advanced_metrics p)
   \<and> engagement_potential (calculate_advanced_metrics p) \<le> 100
   \<and> 0 \<le> influence_score (calculate_advanced_metrics p)
   \<and> influence_score (calculate_advanced_metrics p) \<le> 100
   \<and> 0 \<le> authenticity_score (calculate_advanced_metrics p)
   \<and> authenticity_score (calculate_advanced_metrics p) \<le> 100
   \<and> 0 \<le> profile_completion (calculate_advanced_metrics p)
   \<and> profile_completion (calculate_advanced_metrics p) \<le> 100
   \<and> 0 \<le> privacy_score (security_analysis b)
   \<and> privacy_score (security_analysis b) \<le> 100
   \<and> 0 \<le> consistency_score (analyze_posting_patterns posts)
   \<and> consistency_score (analyze_posting_patterns posts) \<le> 100"
  using engagement_range [of p] influence_range [of p] authenticity_range [of p]
    profile_completion_range [of p] privacy_range [of b] consistency_range [of posts]
  by blast


theorem scores_in_range_witness:
  "engagement_potential (calculate_advanced_metrics (sample_profile 2000 10 40)) = 20
   \<and> influence_score (calculate_advanced_metrics (sample_profile 2000 10 40)) = 100
   \<and> authenticity_score (calculate_advanced_metrics (sample_profile 2000 10 40)) = 90
   \<and> profile_completion (calculate_advanced_metrics (sample_profile 2000 10 40)) = 100
   \<and> 0 \<le> privacy_score (security_analysis (basic_info_of (sample_profile 2000 10 40)))
   \<and> consistency_score (analyze_posting_patterns sample_posts) \<le> 100"
  using scores_in_range [of "sample_profile 2000 10 40"
      "basic_info_of (sample_profile 2000 10 40)" sample_posts]
  by (simp add: sample_profile_def calculate_advanced_metrics_def metrics_init_def
      auth_score_def completion_def truthy_str_def truthy_opt_def)

section \<open>Properties of the rate-limited fetch\<close>










section \<open>Properties of the report assembly\<close>

lemma gate_closed: "truthy_value (dict_get (items pd) ''is_private'' (VBool True))"
  by (simp add: items_def dict_get_def truthy_value_def)

lemma comprehensive_analysis_eq:
  "comprehensive_analysis w uname depth save_report =
     (case lookup_primary w of
        Raises msg \<Rightarrow> NoReport
      | Returns p \<Rightarrow>
          deliver w save_report ((report_init w uname)
            \<lparr> r_profile_analysis := Some (profile_data_of w p) \<rparr>))"
  by (simp add: comprehensive_analysis_def analyze_target_profile_def gate_closed Let_def
      split: outcome.splits)

lemma deliver_cases:
  "deliver w save_report r = Report r
   \<or> (\<exists>msg. save_report \<and> write_files_error w = Some msg
         \<and> deliver w save_report r = Failure msg)"
  by (auto simp: deliver_def split: option.splits)

text \<open>
  Claim C1. When the primary profile fetch succeeds and reports a private account,
  the call does not return \<^verbatim>\<open>None\<close>; the report it returns has the network,
  footprint, security, timeline and behavioural sections in their initial empty
  state, and its profile section holds the data built from the fetched profile.
  The only other outcome is an exception from writing the report files.
\<close>

theorem private_account_report:
  assumes "lookup_primary w = Returns p" and "is_private p"
  shows "(case comprehensive_analysis w uname depth save_report of
            NoReport \<Rightarrow> False
          | Failure msg \<Rightarrow> save_report \<and> write_files_error w = Some msg
          | Report r \<Rightarrow>
              r_network_analysis r = None \<and> r_digital_footprint r = None
              \<and> r_security_analysis r = None \<and> r_timeline_analysis r = None
              \<and> r_behavioral_analysis r = None
              \<and> r_profile_analysis r = Some (profile_data_of w p))
         \<and> pd_basic_info (profile_data_of w p) = basic_info_of p
         \<and> bi_is_private (basic_info_of p)
         \<and> pd_advanced_metrics (profile_data_of w p) = calculate_advanced_metrics p
         \<and> (\<not> save_report \<or> write_files_error w = None \<longrightarrow>
              comprehensive_analysis w uname depth save_report
                = Report ((report_init w uname)
                    \<lparr> r_profile_analysis := Some (profile_data_of w p) \<rparr>))"
proof -
  let ?r = "(report_init w uname) \<lparr> r_profile_analysis := Some (profile_data_of w p) \<rparr>"
  have c: "comprehensive_analysis w uname depth save_report = deliver w save_report ?r"
    using assms(1) by (simp add: comprehensive_analysis_eq)
  have s: "r_network_analysis ?r = None \<and> r_digital_footprint ?r = None
      \<and> r_security_analysis ?r = None \<and> r_timeline_analysis ?r = None
      \<and> r_behavioral_analysis ?r = None
      \<and> r_profile_analysis ?r = Some (profile_data_of w p)"
    by (simp add: report_init_def)
  have 1: "(case comprehensive_analysis w uname depth save_report of
            NoReport \<Rightarrow> False
          | Failure msg \<Rightarrow> save_report \<and> write_files_error w = Some msg
          | Report r \<Rightarrow>
              r_network_analysis r = None \<and> r_digital_footprint r = None
              \<and> r_security_analysis r = None \<and> r_timeline_analysis r = None
              \<and> r_behavioral_analysis r = None
              \<and> r_profile_analysis r = Some (profile_data_of w p))"
    using deliver_cases [of w save_report ?r] s unfolding c by auto
  have 2: "pd_basic_info (profile_data_of w p) = basic_info_of p
         \<and> bi_is_private (basic_info_of p)
         \<and> pd_advanced_metrics (profile_data_of w p) = calculate_advanced_metrics p"
    using assms(2) by (simp add: profile_data_of_def basic_info_of_def)
  have 3: "\<not> save_report \<or> write_files_error w = None \<longrightarrow>
              comprehensive_analysis w uname depth save_report = Report ?r"
    unfolding c by (auto simp: deliver_def)
  from 1 2 3 show ?thesis by blast
qed

theorem private_account_report_witness:
  "comprehensive_analysis (sample_world ((sample_profile 120 80 9) \<lparr> is_private := True \<rparr>))
     ''target'' 2 True
   = Report ((report_init (sample_world ((sample_profile 120 80 9) \<lparr> is_private := True \<rparr>))
       ''target'')
       \<lparr> r_profile_analysis := Some (profile_data_of
            (sample_world ((sample_profile 120 80 9) \<lparr> is_private := True \<rparr>))
            ((sample_profile 120 80 9) \<lparr> is_private := True \<rparr>)) \<rparr>)"
proof -
  have a: "lookup_primary (sample_world ((sample_profile 120 80 9) \<lparr> is_private := True \<rparr>))
        = Returns ((sample_profile 120 80 9) \<lparr> is_private := True \<rparr>)"
    and b: "is_private ((sample_profile 120 80 9) \<lparr> is_private := True \<rparr>)"
    and c: "write_files_error
        (sample_world ((sample_profile 120 80 9) \<lparr> is_private := True \<rparr>)) = None"
    by (simp_all add: sample_world_def)
  from private_account_report [where uname = "''target''" and depth = 2
      and save_report = True, OF a b] c
  show ?thesis by simp
qed






text \<open>
  A further property of the report assembly: the lookup of \<^verbatim>\<open>"is_private"\<close> in the
  outer dictionary always yields the default, so for a public account too only the
  profile section is filled and no secondary branch runs.
\<close>

theorem public_account_branches_skipped:
  assumes "lookup_primary w = Returns p"
  shows "comprehensive_analysis w uname depth save_report
           = deliver w save_report ((report_init w uname)
               \<lparr> r_profile_analysis := Some (profile_data_of w p) \<rparr>)"
  using assms by (simp add: comprehensive_analysis_eq)

theorem public_account_branches_skipped_witness:
  "\<not> is_private (sample_profile 120 80 9)
   \<and> comprehensive_analysis (sample_world (sample_profile 120 80 9)) ''target'' 2 False
       = Report ((report_init (sample_world (sample_profile 120 80 9)) ''target'')
           \<lparr> r_profile_analysis :=
               Some (profile_data_of (sample_world (sample_profile 120 80 9))
                       (sample_profile 120 80 9)) \<rparr>)"
proof -
  have 1: "lookup_primary (sample_world (sample_profile 120 80 9))
        = Returns (sample_profile 120 80 9)"
    by (simp add: sample_world_def)
  show ?thesis
    using public_account_branches_skipped [where uname = "''target''" and depth = 2
        and save_report = False, OF 1]
    by (simp add: sample_profile_def deliver_def)
qed

end
